theory Spec2Isabelle
  imports Complex_Main "HOL-Library.Multiset"
begin

section \<open>The trip adviser core of main.py\<close>

text \<open>
  The embedding follows \<^verbatim>\<open>src/main.py\<close>. Python integers are \<open>int\<close>.
  Python floats are modelled as real numbers, and the arithmetic is exact except at
  the two places where rounding decides what the code does rather than the last
  digits of a value. These are the quantity \<open>a\<close> of haversine, whose rounding
  decides whether \<open>math.sqrt\<close> raises, and the cosine in bounding_box, whose
  rounding keeps the divisor away from zero. Both are part of the model. The special
  values of a float, NaN and the infinities, are modelled for haversine, in
  \<open>haversine_float\<close>. What the code leaves to the data frame library is a
  parameter of the model: the order \<open>sort_values\<close> gives rows of equal distance,
  and what step 2 of filter_places does on a frame without rows.
\<close>

subsection \<open>Travel budget: trip_logic\<close>

text \<open>
  \<^verbatim>\<open>def trip_logic(days, speed=50, sleep=6, meal=3, buffer=2, compromise=False)\<close>.
  The only caller passes the integer fields of the request, and the defaults are
  integers, so \<open>usable\<close> is an integer; \<open>(2 / 3) * usable\<close> is a float.
  The function has no raise and no check of its arguments.
\<close>

definition trip_logic :: "int \<Rightarrow> int \<Rightarrow> int \<Rightarrow> int \<Rightarrow> int \<Rightarrow> bool \<Rightarrow> real \<times> int" where
  "trip_logic days speed sleep meal buffer compromise =
     (let total_hours = days * 24;
          usable = total_hours - (days * (sleep + meal + buffer));
          usable = (if compromise then usable + (sleep - 4) else usable);
          travel_hours = (2 / 3) * real_of_int usable;
          explore_hours = (1 / 3) * real_of_int usable;
          max_distance = travel_hours * real_of_int speed
      in (max_distance, usable))"

subsection \<open>Errors and the math module\<close>

text \<open>
  Every exception the modelled code can raise is a value of \<open>error\<close>; a function
  that can raise returns \<open>error + 'a\<close>, with \<open>Inl\<close> for the exception.
\<close>

datatype error = KeyError string | ValueError

text \<open>\<^verbatim>\<open>math.radians\<close>: degrees to radians.\<close>

definition radians :: "real \<Rightarrow> real" where
  "radians x = x * (pi / 180)"

text \<open>
  \<^verbatim>\<open>math.atan2(y, x)\<close>: the angle of the point \<open>(x, y)\<close> in \<open>(-pi, pi]\<close>
  (signed zeros are a float matter and have no counterpart here).
\<close>

definition atan2 :: "real \<Rightarrow> real \<Rightarrow> real" where
  "atan2 y x =
     (if 0 < x then arctan (y / x)
      else if x < 0 then (if 0 \<le> y then arctan (y / x) + pi else arctan (y / x) - pi)
      else if 0 < y then pi / 2
      else if y < 0 then - (pi / 2)
      else 0)"

text \<open>\<^verbatim>\<open>math.sqrt\<close> raises ValueError (math domain error) on a negative argument.\<close>

definition math_sqrt :: "real \<Rightarrow> error + real" where
  "math_sqrt x = (if x < 0 then Inl ValueError else Inr (sqrt x))"

subsection \<open>Distance metric: haversine\<close>

text \<open>
  The exact value of the quantity \<open>a\<close> of haversine lies between 0 and 1 (shown
  below), but the code computes it in double precision, and the computed value can
  fall just outside: for the points (8, 0) and (-8, 180) it is 1.0000000000000002,
  for (100, 0) and (80, 180) it is about -6.9e-18, and then \<open>math.sqrt\<close> raises.
  The model carries the rounding error of \<open>a\<close> as a parameter:
  \<open>eps lat1 lon1 lat2 lon2\<close> is the computed \<open>a\<close> at these arguments minus its exact
  value. The computation is deterministic, so the error is a function of the
  arguments. \<open>exact\<close> is the computation without error.
\<close>

type_synonym rounding = "real \<Rightarrow> real \<Rightarrow> real \<Rightarrow> real \<Rightarrow> real"

definition exact :: rounding where
  "exact = (\<lambda>lat1 lon1 lat2 lon2. 0)"

text \<open>
  \<^verbatim>\<open>def haversine(lat1, lon1, lat2, lon2)\<close>, lines 24 to 35. The arguments of
  \<open>atan2\<close> are evaluated left to right; the function itself checks nothing, the only
  raises are those of \<open>math.sqrt\<close>.
\<close>

definition haversine :: "rounding \<Rightarrow> real \<Rightarrow> real \<Rightarrow> real \<Rightarrow> real \<Rightarrow> error + real" where
  "haversine eps lat1 lon1 lat2 lon2 =
     (let R = 6371;
          dlat = radians (lat2 - lat1);
          dlon = radians (lon2 - lon1);
          a = (sin (dlat / 2))\<^sup>2 +
              cos (radians lat1) * cos (radians lat2) * (sin (dlon / 2))\<^sup>2 +
              eps lat1 lon1 lat2 lon2
      in case math_sqrt a of
           Inl e \<Rightarrow> Inl e
         | Inr sa \<Rightarrow>
             (case math_sqrt (1 - a) of
                Inl e \<Rightarrow> Inl e
              | Inr sb \<Rightarrow> Inr (R * (2 * atan2 sa sb))))"

text \<open>
  Three names used to state the properties: the exact value of \<open>a\<close>, the value the
  code computes for it, and the number haversine returns when no square root raises.
\<close>

definition hav_a :: "real \<Rightarrow> real \<Rightarrow> real \<Rightarrow> real \<Rightarrow> real" where
  "hav_a lat1 lon1 lat2 lon2 =
     (sin (radians (lat2 - lat1) / 2))\<^sup>2 +
     cos (radians lat1) * cos (radians lat2) * (sin (radians (lon2 - lon1) / 2))\<^sup>2"

definition computed_a :: "rounding \<Rightarrow> real \<Rightarrow> real \<Rightarrow> real \<Rightarrow> real \<Rightarrow> real" where
  "computed_a eps lat1 lon1 lat2 lon2 =
     hav_a lat1 lon1 lat2 lon2 + eps lat1 lon1 lat2 lon2"

definition haversine_km :: "rounding \<Rightarrow> real \<Rightarrow> real \<Rightarrow> real \<Rightarrow> real \<Rightarrow> real" where
  "haversine_km eps lat1 lon1 lat2 lon2 =
     6371 * (2 * atan2 (sqrt (computed_a eps lat1 lon1 lat2 lon2))
                       (sqrt (1 - computed_a eps lat1 lon1 lat2 lon2)))"

text \<open>
  The special values of a float. On numbers haversine is the function above; with an
  infinity or NaN among the arguments the code does the following. The two
  subtractions follow the arithmetic of floats (an infinity minus itself is NaN);
  \<open>math.radians\<close> and the division by 2 keep an infinity and keep NaN;
  \<open>math.sin\<close> and \<open>math.cos\<close> raise ValueError (math domain error) at an infinity
  and return NaN at NaN; the arithmetic, \<open>math.sqrt\<close> and \<open>math.atan2\<close> return NaN
  when an operand is NaN. So the call raises when \<open>dlat\<close>, \<open>lat1\<close>, \<open>lat2\<close> or
  \<open>dlon\<close> is infinite, and returns NaN otherwise when some argument is not a
  number. (The difference of two numbers is taken to be a number: overflow is left
  out.)
\<close>

datatype pyfloat = Fin real | PosInf | NegInf | NaN

definition is_inf :: "pyfloat \<Rightarrow> bool" where
  "is_inf x \<longleftrightarrow> x = PosInf \<or> x = NegInf"

fun py_sub :: "pyfloat \<Rightarrow> pyfloat \<Rightarrow> pyfloat" where
  "py_sub (Fin x) (Fin y) = Fin (x - y)"
| "py_sub NaN y = NaN"
| "py_sub x NaN = NaN"
| "py_sub PosInf PosInf = NaN"
| "py_sub NegInf NegInf = NaN"
| "py_sub PosInf y = PosInf"
| "py_sub NegInf y = NegInf"
| "py_sub (Fin x) PosInf = NegInf"
| "py_sub (Fin x) NegInf = PosInf"

definition haversine_float ::
  "rounding \<Rightarrow> pyfloat \<Rightarrow> pyfloat \<Rightarrow> pyfloat \<Rightarrow> pyfloat \<Rightarrow> error + pyfloat" where
  "haversine_float eps lat1 lon1 lat2 lon2 =
     (let dlat = py_sub lat2 lat1;
          dlon = py_sub lon2 lon1
      in if is_inf dlat \<or> is_inf lat1 \<or> is_inf lat2 \<or> is_inf dlon then Inl ValueError
         else (case (lat1, lon1, lat2, lon2) of
                 (Fin x1, Fin y1, Fin x2, Fin y2) \<Rightarrow>
                   (case haversine eps x1 y1 x2 y2 of
                      Inl e \<Rightarrow> Inl e
                    | Inr d \<Rightarrow> Inr (Fin d))
               | _ \<Rightarrow> Inr NaN))"

subsection \<open>Spatial prefilter: bounding_box\<close>

text \<open>
  \<^verbatim>\<open>math.cos(math.radians(lat))\<close> as bounding_box uses it, as a divisor. No double
  is an odd multiple of \<open>pi / 2\<close>, so the computed cosine is never zero: at the poles,
  where the exact cosine vanishes, \<^verbatim>\<open>math.cos(math.radians(90.0))\<close> is
  6.123233995736766e-17. (The exact cosine also vanishes at 270, 450 and so on, which
  are no latitudes; the computed cosine is some tiny nonzero number there too, and
  the model takes the one of the poles.)
\<close>

definition cos_of_degrees :: "real \<Rightarrow> real" where
  "cos_of_degrees lat =
     (if cos (radians lat) = 0 then 6123233995736766 / 10 ^ 32 else cos (radians lat))"

text \<open>
  \<^verbatim>\<open>def bounding_box(lat, lon, distance_km)\<close>, lines 73 to 76. The divisor
  \<open>111.0 * cos(radians(lat))\<close> is never zero, so the function always returns a box;
  at the poles the longitude interval is enormous.
\<close>

definition bounding_box :: "real \<Rightarrow> real \<Rightarrow> real \<Rightarrow> real \<times> real \<times> real \<times> real" where
  "bounding_box lat lon distance_km =
     (let delta_lat = distance_km / 111;
          delta_lon = distance_km / (111 * cos_of_degrees lat)
      in (lat - delta_lat, lat + delta_lat, lon - delta_lon, lon + delta_lon))"

subsection \<open>The catalog as a data frame\<close>

text \<open>
  A row of the catalog carries the cells the code reads; a data frame is its list of
  column names and its rows, in index order. A cell whose column is not among
  \<open>columns\<close> is never read. \<open>distance_km\<close> is the column the range filter adds.
  The coordinates of a row are numbers: a row of the file with a missing coordinate
  (NaN) fails every comparison of the mask of step 1, takes no part in a query, and
  is left out of the frames of the model.
\<close>

record row =
  Name :: string
  City :: string
  Latitude :: real
  Longitude :: real
  distance_km :: real

record dataframe =
  columns :: "string list"
  rows :: "row list"

text \<open>
  Data frames are objects: the state maps addresses to data frames, \<open>next_free\<close> is the
  first address not yet allocated, and \<open>stdout\<close> records what \<open>print\<close> wrote.
\<close>

datatype printed = PrintCities "string list" | PrintColumnsNotFound

record state =
  heap :: "nat \<Rightarrow> dataframe"
  next_free :: nat
  stdout :: "printed list"

definition alloc :: "dataframe \<Rightarrow> state \<Rightarrow> nat \<times> state" where
  "alloc d s =
     (next_free s, s\<lparr>heap := (heap s)(next_free s := d), next_free := Suc (next_free s)\<rparr>)"

subsection \<open>Range filter and ranker: filter_places\<close>

text \<open>The mask of step 1: the four comparisons against the box, joined by \<open>&\<close>.\<close>

definition in_box :: "real \<times> real \<times> real \<times> real \<Rightarrow> row \<Rightarrow> bool" where
  "in_box box r =
     (case box of (min_lat, max_lat, min_lon, max_lon) \<Rightarrow>
        Latitude r \<ge> min_lat \<and> Latitude r \<le> max_lat \<and>
        Longitude r \<ge> min_lon \<and> Longitude r \<le> max_lon)"

text \<open>
  Step 2, \<^verbatim>\<open>candidates.apply(lambda row: haversine(...), axis=1)\<close>: the distance of
  every row in turn; an exception of haversine ends the call.
\<close>

fun apply_haversine :: "rounding \<Rightarrow> real \<Rightarrow> real \<Rightarrow> row list \<Rightarrow> error + real list" where
  "apply_haversine eps lat_x lon_x [] = Inr []"
| "apply_haversine eps lat_x lon_x (r # rs) =
     (case haversine eps lat_x lon_x (Latitude r) (Longitude r) of
        Inl e \<Rightarrow> Inl e
      | Inr d \<Rightarrow>
          (case apply_haversine eps lat_x lon_x rs of
             Inl e \<Rightarrow> Inl e
           | Inr ds \<Rightarrow> Inr (d # ds)))"

text \<open>
  Step 2 on a frame without rows: \<open>apply\<close> then calls haversine for no row and gives
  back an empty frame, not a column, and what the assignment to
  \<^verbatim>\<open>candidates['distance_km']\<close> does with it depends on the version of the library:
  it assigns an empty column, or it raises ValueError. \<open>on_empty\<close> is that behaviour,
  \<open>None\<close> for the assignment and \<open>Some e\<close> for the exception \<open>e\<close>; it is a
  parameter of the model.
\<close>

definition distance_column ::
  "error option \<Rightarrow> rounding \<Rightarrow> real \<Rightarrow> real \<Rightarrow> row list \<Rightarrow> error + real list" where
  "distance_column on_empty eps lat_x lon_x rs =
     (if rs = [] then (case on_empty of None \<Rightarrow> Inr [] | Some e \<Rightarrow> Inl e)
      else apply_haversine eps lat_x lon_x rs)"

text \<open>\<^verbatim>\<open>candidates['distance_km'] = ...\<close>: the column is added to (or replaced in) the frame.\<close>

definition with_distance_km :: "string list \<Rightarrow> string list" where
  "with_distance_km cols =
     (if ''distance_km'' \<in> set cols then cols else cols @ [''distance_km''])"

definition set_distance_km :: "dataframe \<Rightarrow> real list \<Rightarrow> dataframe" where
  "set_distance_km d ds =
     \<lparr>columns = with_distance_km (columns d),
      rows = map (\<lambda>(r, x). r\<lparr>distance_km := x\<rparr>) (zip (rows d) ds)\<rparr>"

text \<open>Step 3: the mask \<^verbatim>\<open>(distance_km >= min_dist) & (distance_km <= max_dist)\<close>.\<close>

definition band_filter :: "real \<Rightarrow> real \<Rightarrow> row list \<Rightarrow> row list" where
  "band_filter min_dist max_dist rs =
     filter (\<lambda>r. distance_km r \<ge> min_dist \<and> distance_km r \<le> max_dist) rs"

text \<open>
  The loop of lines 100 to 102: \<^verbatim>\<open>if row["City"] not in city: city.append(row["City"])\<close>.
\<close>

fun collect_cities :: "row list \<Rightarrow> string list \<Rightarrow> string list" where
  "collect_cities [] city = city"
| "collect_cities (r # rs) city =
     collect_cities rs (if City r \<notin> set city then city @ [City r] else city)"

text \<open>
  \<^verbatim>\<open>sort_values(by='distance_km')\<close> is the library's: it returns the rows in
  ascending order of the column. The order it gives rows of equal distance depends on
  the sorting algorithm (the default kind is quicksort), so the sort is a parameter of
  the model and the theorems assume of it what \<open>sorts_by_key\<close> says.
\<close>

type_synonym sorter = "(row \<Rightarrow> real) \<Rightarrow> row list \<Rightarrow> row list"


text \<open>
  \<^verbatim>\<open>def filter_places(df, lat_x, lon_x, max_distance_km, tolerance=150)\<close>, lines 80
  to 107; \<open>df\<close> is the address of the catalog. Boolean indexing, \<open>.copy()\<close>, the
  second boolean indexing and \<open>sort_values\<close> each make a new frame; the column
  assignment changes the frame \<open>candidates\<close> in place. \<open>df['Latitude']\<close> and
  \<open>df['Longitude']\<close> raise KeyError when the column is missing; an exception of
  step 2 ends the call.
\<close>

definition filter_places ::
  "sorter \<Rightarrow> error option \<Rightarrow> rounding \<Rightarrow> state \<Rightarrow> nat \<Rightarrow> real \<Rightarrow> real \<Rightarrow> real \<Rightarrow> real
     \<Rightarrow> (error + string list) \<times> state" where
  "filter_places sort_values on_empty eps s df lat_x lon_x max_distance_km tolerance =
     (let box = bounding_box lat_x lon_x (max_distance_km + tolerance)
      in (if ''Latitude'' \<notin> set (columns (heap s df)) then (Inl (KeyError ''Latitude''), s)
          else if ''Longitude'' \<notin> set (columns (heap s df)) then (Inl (KeyError ''Longitude''), s)
          else
            (let (masked, s1) =
                   alloc \<lparr>columns = columns (heap s df),
                          rows = filter (in_box box) (rows (heap s df))\<rparr> s;
                 (candidates, s2) = alloc (heap s1 masked) s1
             in (case distance_column on_empty eps lat_x lon_x (rows (heap s2 candidates)) of
                   Inl e \<Rightarrow> (Inl e, s2)
                 | Inr ds \<Rightarrow>
                     (let s3 = s2\<lparr>heap := (heap s2)
                                (candidates := set_distance_km (heap s2 candidates) ds)\<rparr>;
                          min_dist = max_distance_km - tolerance;
                          max_dist = max_distance_km + tolerance;
                          (filtered_df, s4) =
                            alloc \<lparr>columns = columns (heap s3 candidates),
                                   rows = band_filter min_dist max_dist
                                            (rows (heap s3 candidates))\<rparr> s3;
                          (filtered_df, s5) =
                            alloc \<lparr>columns = columns (heap s4 filtered_df),
                                   rows = sort_values distance_km
                                            (rows (heap s4 filtered_df))\<rparr> s4
                      in (if ''City'' \<in> set (columns (heap s5 filtered_df))
                             \<and> ''Name'' \<in> set (columns (heap s5 filtered_df))
                          then
                            (let city = collect_cities (rows (heap s5 filtered_df)) []
                             in (Inr (take 5 city),
                                 s5\<lparr>stdout := stdout s5 @ [PrintCities (take 5 city)]\<rparr>))
                          else
                            (Inr (take 5 []),
                             s5\<lparr>stdout := stdout s5 @ [PrintColumnsNotFound]\<rparr>)))))))"

text \<open>
  Names for three stages of filter_places, used to state its properties: the rows of
  \<open>candidates\<close> after step 2 (the rows of the catalog inside the box, each with its
  distance from the origin), the rows of \<open>filtered_df\<close> after step 3, and the same
  for the box filter_places computes.
\<close>

definition candidate_rows ::
  "rounding \<Rightarrow> real \<Rightarrow> real \<Rightarrow> real \<times> real \<times> real \<times> real \<Rightarrow> row list \<Rightarrow> row list" where
  "candidate_rows eps lat_x lon_x box rs =
     map (\<lambda>r. r\<lparr>distance_km := haversine_km eps lat_x lon_x (Latitude r) (Longitude r)\<rparr>)
       (filter (in_box box) rs)"

definition filtered_rows ::
  "rounding \<Rightarrow> real \<Rightarrow> real \<Rightarrow> real \<times> real \<times> real \<times> real \<Rightarrow> real \<Rightarrow> real \<Rightarrow> row list
     \<Rightarrow> row list" where
  "filtered_rows eps lat_x lon_x box max_distance_km tolerance rs =
     band_filter (max_distance_km - tolerance) (max_distance_km + tolerance)
       (candidate_rows eps lat_x lon_x box rs)"

definition matching_rows ::
  "rounding \<Rightarrow> real \<Rightarrow> real \<Rightarrow> real \<Rightarrow> real \<Rightarrow> row list \<Rightarrow> row list" where
  "matching_rows eps lat_x lon_x max_distance_km tolerance rs =
     filtered_rows eps lat_x lon_x (bounding_box lat_x lon_x (max_distance_km + tolerance))
       max_distance_km tolerance rs"



subsection \<open>The public operation: recommend_cities\<close>

text \<open>
  Python's default arguments: an argument the caller leaves out is \<open>None\<close> here and
  takes the default of the \<open>def\<close> line.
\<close>

definition trip_logic_args ::
  "int \<Rightarrow> int option \<Rightarrow> int option \<Rightarrow> int option \<Rightarrow> int option \<Rightarrow> bool option \<Rightarrow> real \<times> int" where
  "trip_logic_args days speed sleep meal buffer compromise =
     trip_logic days
       (case speed of None \<Rightarrow> 50 | Some v \<Rightarrow> v)
       (case sleep of None \<Rightarrow> 6 | Some v \<Rightarrow> v)
       (case meal of None \<Rightarrow> 3 | Some v \<Rightarrow> v)
       (case buffer of None \<Rightarrow> 2 | Some v \<Rightarrow> v)
       (case compromise of None \<Rightarrow> False | Some v \<Rightarrow> v)"

definition filter_places_args ::
  "sorter \<Rightarrow> error option \<Rightarrow> rounding \<Rightarrow> state \<Rightarrow> nat \<Rightarrow> real \<Rightarrow> real \<Rightarrow> real \<Rightarrow> real option
     \<Rightarrow> (error + string list) \<times> state" where
  "filter_places_args sort_values on_empty eps s df lat_x lon_x max_distance_km tolerance =
     filter_places sort_values on_empty eps s df lat_x lon_x max_distance_km
       (case tolerance of None \<Rightarrow> 150 | Some v \<Rightarrow> v)"

text \<open>
  \<^verbatim>\<open>get_lat_lon\<close>, lines 43 to 48; \<open>geocode\<close> stands for the geocoding service,
  which answers with a location or with nothing.
\<close>

definition get_lat_lon :: "(string \<Rightarrow> (real \<times> real) option) \<Rightarrow> string \<Rightarrow> (real \<times> real) option" where
  "get_lat_lon geocode place_name =
     (case geocode place_name of
        Some (latitude, longitude) \<Rightarrow> Some (latitude, longitude)
      | None \<Rightarrow> None)"

text \<open>\<^verbatim>\<open>round(x, 2)\<close>: to two decimals, a tie going to the even neighbour.\<close>

definition round2 :: "real \<Rightarrow> real" where
  "round2 x =
     (let y = x * 100; f = \<lfloor>y\<rfloor>
      in (if y - of_int f < 1 / 2 then of_int f
          else if 1 / 2 < y - of_int f then of_int (f + 1)
          else if even f then of_int f
          else of_int (f + 1)) / 100)"

record request =
  user_location :: string
  trip_days :: int
  speed :: int

datatype response = LocationNotFound | Recommended real "string list"

text \<open>
  \<^verbatim>\<open>def recommend_cities(request)\<close>, lines 138 to 152. \<open>LocationNotFound\<close> is the
  answer \<^verbatim>\<open>{"error": "Location not found"}\<close>; \<open>Recommended d cs\<close> is the answer
  with \<open>max_distance_km = d\<close> and \<open>recommended_cities = cs\<close>. A pair of
  coordinates is never falsy, so \<open>not coords\<close> holds for \<open>None\<close> only.
\<close>

definition recommend_cities ::
  "sorter \<Rightarrow> error option \<Rightarrow> rounding \<Rightarrow> (string \<Rightarrow> (real \<times> real) option) \<Rightarrow> state \<Rightarrow> nat
     \<Rightarrow> request \<Rightarrow> (error + response) \<times> state" where
  "recommend_cities sort_values on_empty eps geocode s df request =
     (case get_lat_lon geocode (user_location request) of
        None \<Rightarrow> (Inr LocationNotFound, s)
      | Some (lat, lon) \<Rightarrow>
          (let (max_distance, usable_hours) =
                 trip_logic_args (trip_days request) (Some (speed request)) None None None None
           in (case filter_places_args sort_values on_empty eps s df lat lon max_distance None of
                 (Inl e, s') \<Rightarrow> (Inl e, s')
               | (Inr tour_city, s') \<Rightarrow>
                   (Inr (Recommended (round2 max_distance) (take 5 tour_city)), s'))))"

subsection \<open>A small catalog for the examples\<close>

text \<open>
  A stable sort by the key is one sort that meets \<open>sorts_by_key\<close>. The example
  catalog has five places on the meridian of the origin (0, 0), at latitudes 10 to
  14; two of them are in city A. \<open>catalog_of_origin\<close> has one place, at the origin
  itself. \<open>state_with d\<close> is a state whose only frame is \<open>d\<close>, at address 0.
\<close>

definition sort_values_stable :: sorter where
  "sort_values_stable k xs = sort_key k xs"

definition place :: "string \<Rightarrow> string \<Rightarrow> real \<Rightarrow> real \<Rightarrow> row" where
  "place n c la lo = \<lparr>Name = n, City = c, Latitude = la, Longitude = lo, distance_km = 0\<rparr>"

definition example_rows :: "row list" where
  "example_rows =
     [place ''Fort'' ''A'' 12 0, place ''Lake'' ''B'' 11 0, place ''Gate'' ''A'' 13 0,
      place ''Hill'' ''C'' 10 0, place ''Cave'' ''D'' 14 0]"

definition example_catalog :: dataframe where
  "example_catalog =
     \<lparr>columns = [''Name'', ''City'', ''Latitude'', ''Longitude''], rows = example_rows\<rparr>"

definition catalog_without_city :: dataframe where
  "catalog_without_city =
     \<lparr>columns = [''Name'', ''Latitude'', ''Longitude''], rows = example_rows\<rparr>"

definition catalog_without_latitude :: dataframe where
  "catalog_without_latitude =
     \<lparr>columns = [''Name'', ''City'', ''Longitude''], rows = example_rows\<rparr>"

definition catalog_of_origin :: dataframe where
  "catalog_of_origin =
     \<lparr>columns = [''Name'', ''City'', ''Latitude'', ''Longitude''],
      rows = [place ''Here'' ''H'' 0 0]\<rparr>"

definition state_with :: "dataframe \<Rightarrow> state" where
  "state_with d =
     \<lparr>heap = (\<lambda>_. \<lparr>columns = [], rows = []\<rparr>)(0 := d), next_free = 1, stdout = []\<rparr>"

definition example_box :: "real \<times> real \<times> real \<times> real" where
  "example_box = (0 - 1450 / 111, 0 + 1450 / 111, 0 - 1450 / 111, 0 + 1450 / 111)"

definition example_geocode :: "string \<Rightarrow> (real \<times> real) option" where
  "example_geocode name = (if name = ''Origin'' then Some (0, 0) else None)"

text \<open>
  A rounding error as the code has it at the valid points (8, 0) and (-8, 180), where
  the exact \<open>a\<close> is 1 and the computed one is 1.0000000000000002, that is
  \<open>1 + 1 / 2 ^ 52\<close>; no error elsewhere.
\<close>

definition rounding_up_at_8 :: rounding where
  "rounding_up_at_8 lat1 lon1 lat2 lon2 =
     (if lat1 = 8 \<and> lon1 = 0 \<and> lat2 = - 8 \<and> lon2 = 180 then 1 / 2 ^ 52 else 0)"

section \<open>Properties of trip_logic\<close>

lemma trip_logic_usable:
  "snd (trip_logic days spd sleep meal buffer compromise) =
     days * 24 - days * (sleep + meal + buffer) + (if compromise then sleep - 4 else 0)"
  by (simp add: trip_logic_def Let_def)

lemma trip_logic_distance:
  "fst (trip_logic days spd sleep meal buffer compromise) =
     2 / 3 * real_of_int (snd (trip_logic days spd sleep meal buffer compromise)) * real_of_int spd"
  by (simp add: trip_logic_def Let_def)

text \<open>
  C8. With three days, speed 50, the default allocations 6, 3, 2 and the compromise
  flag off, trip_logic returns max_distance 1300 and usable hours 39.
\<close>

theorem trip_logic_three_days:
  "trip_logic 3 50 6 3 2 False = (1300, 39)"
  by (simp add: trip_logic_def Let_def)

text \<open>
  C4 (as the code has it). trip_logic rejects nothing: whenever the usable hours come
  out negative and the speed is positive, it returns them together with a negative
  max_distance, which is two thirds of the usable hours times the speed.
\<close>

theorem trip_logic_negative_usable:
  assumes "snd (trip_logic days spd sleep meal buffer compromise) < 0" and "0 < spd"
  shows "fst (trip_logic days spd sleep meal buffer compromise) < 0
       \<and> fst (trip_logic days spd sleep meal buffer compromise) =
           2 / 3 * real_of_int (snd (trip_logic days spd sleep meal buffer compromise))
             * real_of_int spd"
proof -
  let ?u = "snd (trip_logic days spd sleep meal buffer compromise)"
  have "real_of_int ?u < 0" using assms(1) by simp
  moreover have "0 < real_of_int spd" using assms(2) by simp
  ultimately have "2 / 3 * real_of_int ?u * real_of_int spd < 0"
    by (simp add: mult_neg_pos)
  then show ?thesis by (simp only: trip_logic_distance [symmetric] simp_thms)
qed

theorem trip_logic_negative_usable_witness:
  "snd (trip_logic 2 40 20 3 2 False) < 0 \<and> (0::int) < 40
   \<and> fst (trip_logic 2 40 20 3 2 False) < 0
   \<and> fst (trip_logic 2 40 20 3 2 False) =
       2 / 3 * real_of_int (snd (trip_logic 2 40 20 3 2 False)) * real_of_int 40"
proof -
  have u: "snd (trip_logic 2 40 20 3 2 False) < 0"
    by (simp add: trip_logic_def Let_def)
  have s: "(0::int) < 40" by simp
  show ?thesis using u s trip_logic_negative_usable [OF u s] by simp
qed

text \<open>
  The claim of C4 fails at one day with 20 hours of sleep, 3 of meals and 2 of buffer:
  the usable hours are -1, and the function returns the distance -100/3.
\<close>

theorem trip_logic_no_domain_error:
  "trip_logic 1 50 20 3 2 False = (- (100 / 3), - 1)"
  by (simp add: trip_logic_def Let_def)

text \<open>
  C5 (as the code has it). The compromise flag adds sleep - 4 to the usable hours once,
  whatever the number of days: the usable hours grow when sleep is above 4, are the
  same at 4 and shrink when sleep is below 4.
\<close>

theorem trip_logic_compromise:
  "snd (trip_logic days spd sleep meal buffer True) =
     snd (trip_logic days spd sleep meal buffer False) + (sleep - 4)
   \<and> (snd (trip_logic days spd sleep meal buffer False)
         < snd (trip_logic days spd sleep meal buffer True)) = (4 < sleep)
   \<and> (snd (trip_logic days spd sleep meal buffer True)
         = snd (trip_logic days spd sleep meal buffer False)) = (sleep = 4)
   \<and> (snd (trip_logic days spd sleep meal buffer True)
         < snd (trip_logic days spd sleep meal buffer False)) = (sleep < 4)"
  by (simp add: trip_logic_usable)

text \<open>
  The claim of C5 fails at sleep = 3: with the flag on the usable hours are 15, with
  the flag off they are 16.
\<close>

theorem trip_logic_compromise_less:
  "snd (trip_logic 1 50 3 3 2 True) = 15 \<and> snd (trip_logic 1 50 3 3 2 False) = 16"
  by (simp add: trip_logic_def Let_def)

section \<open>Bounds on pi\<close>


lemma sin_sum6: "(\<Sum>m<6. sin_coeff m * x ^ m) = x - x^3/6 + x^5/(120::real)"
  by (simp add: eval_nat_numeral sin_coeff_Suc cos_coeff_Suc)

lemma sin_sum5: "(\<Sum>m<5. sin_coeff m * x ^ m) = x - x^3/(6::real)"
  by (simp add: eval_nat_numeral sin_coeff_Suc cos_coeff_Suc)

lemma fact6: "fact 6 = (720::real)"
  by (simp add: eval_nat_numeral)

lemma fact5: "fact 5 = (120::real)"
  by (simp add: eval_nat_numeral)

lemma sin_upper6: "sin (x::real) \<le> x - x^3/6 + x^5/120 + \<bar>x\<bar>^6/720"
proof -
  have "\<bar>sin x - (\<Sum>m<6. sin_coeff m * x ^ m)\<bar> \<le> inverse (fact 6) * \<bar>x\<bar> ^ 6"
    by (rule Maclaurin_sin_bound)
  then have "\<bar>sin x - (x - x^3/6 + x^5/120)\<bar> \<le> inverse 720 * \<bar>x\<bar> ^ 6"
    by (simp only: sin_sum6 fact6)
  moreover have "sin x - (x - x^3/6 + x^5/120) \<le> \<bar>sin x - (x - x^3/6 + x^5/120)\<bar>"
    by (rule abs_ge_self)
  moreover have "inverse 720 * \<bar>x\<bar> ^ 6 = \<bar>x\<bar> ^ 6 / 720"
    by (simp only: divide_inverse mult.commute)
  ultimately show ?thesis by linarith
qed

lemma sin_lower5: "x - x^3/6 - \<bar>x\<bar>^5/120 \<le> sin (x::real)"
proof -
  have "\<bar>sin x - (\<Sum>m<5. sin_coeff m * x ^ m)\<bar> \<le> inverse (fact 5) * \<bar>x\<bar> ^ 5"
    by (rule Maclaurin_sin_bound)
  then have "\<bar>sin x - (x - x^3/6)\<bar> \<le> inverse 120 * \<bar>x\<bar> ^ 5"
    by (simp only: sin_sum5 fact5)
  moreover have "- (sin x - (x - x^3/6)) \<le> \<bar>sin x - (x - x^3/6)\<bar>"
    by (rule abs_ge_minus_self)
  moreover have "inverse 120 * \<bar>x\<bar> ^ 5 = \<bar>x\<bar> ^ 5 / 120"
    by (simp only: divide_inverse mult.commute)
  ultimately show ?thesis by linarith
qed

lemma pi_lower: "3.1362 < pi"
proof -
  have "sin (0.5227::real) < 1/2"
    using sin_upper6 [of "0.5227"] by (simp add: power_numeral_reduce)
  then have "sin (0.5227::real) < sin (pi/6)" by (simp add: sin_30)
  moreover have "-(pi/2) \<le> (0.5227::real)" "(0.5227::real) \<le> pi/2" "-(pi/2) \<le> pi/6" "pi/6 \<le> pi/2"
    using pi_ge_two by simp_all
  ultimately have "(0.5227::real) < pi/6"
    by (simp add: sin_mono_less_eq)
  then show ?thesis by simp
qed

lemma pi_upper: "pi < 3.15"
proof -
  have "1/2 < sin (0.525::real)"
    using sin_lower5 [of "0.525"] by (simp add: power_numeral_reduce)
  then have "sin (pi/6) < sin (0.525::real)" by (simp add: sin_30)
  moreover have "-(pi/2) \<le> (0.525::real)" "(0.525::real) \<le> pi/2" "-(pi/2) \<le> pi/6" "pi/6 \<le> pi/2"
    using pi_ge_two by simp_all
  ultimately have "pi/6 < (0.525::real)"
    by (simp add: sin_mono_less_eq)
  then show ?thesis by simp
qed


section \<open>Properties of haversine\<close>

lemma sin2_le1: "(sin (z::real))\<^sup>2 \<le> 1"
  using sin_cos_squared_add [of z] zero_le_power2 [of "cos z"] by linarith

lemma sin_half_squared: "(sin (z / 2))\<^sup>2 = (1 - cos (z::real)) / 2"
proof -
  have "cos z = cos (2 * (z / 2))" by simp
  also have "\<dots> = 1 - 2 * (sin (z / 2))\<^sup>2" by (rule cos_double_sin)
  finally show ?thesis by simp
qed

lemma hav_a_alt:
  "hav_a lat1 lon1 lat2 lon2 =
     (1 - (1 - (sin (radians (lon2 - lon1) / 2))\<^sup>2) * cos (radians lat2 - radians lat1)
        + (sin (radians (lon2 - lon1) / 2))\<^sup>2 * cos (radians lat2 + radians lat1)) / 2"
proof -
  have d: "radians (lat2 - lat1) = radians lat2 - radians lat1"
    by (simp add: radians_def left_diff_distrib)
  have p: "cos (radians lat1) * cos (radians lat2) =
      (cos (radians lat2 - radians lat1) + cos (radians lat2 + radians lat1)) / 2"
    by (simp add: cos_add cos_diff)
  have g: "(1 - cd) / 2 + (cd + cs) / 2 * s = (1 - (1 - s) * cd + s * cs) / 2"
    for s cd cs :: real
    by (simp add: field_simps)
  show ?thesis
    unfolding hav_a_def d sin_half_squared [of "radians lat2 - radians lat1"] p
    by (rule g)
qed

lemma convex_cos_bounds:
  fixes s c1 c2 :: real
  assumes "0 \<le> s" "s \<le> 1" "\<bar>c1\<bar> \<le> 1" "\<bar>c2\<bar> \<le> 1"
  shows "0 \<le> 1 - (1 - s) * c1 + s * c2" and "1 - (1 - s) * c1 + s * c2 \<le> 2"
proof -
  have c: "c1 \<le> 1" "- 1 \<le> c1" "c2 \<le> 1" "- 1 \<le> c2" "0 \<le> 1 - s"
    using assms by simp_all
  have a: "(1 - s) * c1 \<le> (1 - s) * 1" "(1 - s) * (- 1) \<le> (1 - s) * c1"
    using c by (simp_all only: mult_left_mono)
  have b: "s * (- 1) \<le> s * c2" "s * c2 \<le> s * 1"
    using c assms(1) by (simp_all only: mult_left_mono)
  show "0 \<le> 1 - (1 - s) * c1 + s * c2" using a(1) b(1) by simp
  show "1 - (1 - s) * c1 + s * c2 \<le> 2" using a(2) b(2) by simp
qed

text \<open>The exact value of \<open>a\<close> lies between 0 and 1, for all arguments.\<close>

lemma hav_a_ge0: "0 \<le> hav_a lat1 lon1 lat2 lon2"
  unfolding hav_a_alt
  using convex_cos_bounds(1) [of "(sin (radians (lon2 - lon1) / 2))\<^sup>2"
      "cos (radians lat2 - radians lat1)" "cos (radians lat2 + radians lat1)"]
  by (simp add: sin2_le1)

lemma hav_a_le1: "hav_a lat1 lon1 lat2 lon2 \<le> 1"
  unfolding hav_a_alt
  using convex_cos_bounds(2) [of "(sin (radians (lon2 - lon1) / 2))\<^sup>2"
      "cos (radians lat2 - radians lat1)" "cos (radians lat2 + radians lat1)"]
  by (simp add: sin2_le1)

lemma computed_a_exact: "computed_a exact lat1 lon1 lat2 lon2 = hav_a lat1 lon1 lat2 lon2"
  by (simp add: computed_a_def exact_def)

text \<open>
  haversine raises exactly when the computed \<open>a\<close> is below 0 (the first square root)
  or above 1 (the second).
\<close>

lemma haversine_eq:
  "haversine eps lat1 lon1 lat2 lon2 =
     (if computed_a eps lat1 lon1 lat2 lon2 < 0 \<or> 1 < computed_a eps lat1 lon1 lat2 lon2
      then Inl ValueError
      else Inr (haversine_km eps lat1 lon1 lat2 lon2))"
  by (simp add: haversine_def haversine_km_def computed_a_def hav_a_def Let_def math_sqrt_def)

lemma haversine_Inr:
  assumes "haversine eps lat1 lon1 lat2 lon2 = Inr d"
  shows "0 \<le> computed_a eps lat1 lon1 lat2 lon2" "computed_a eps lat1 lon1 lat2 lon2 \<le> 1"
    "d = haversine_km eps lat1 lon1 lat2 lon2"
  using assms by (simp_all add: haversine_eq split: if_splits)

lemma haversine_exact:
  "haversine exact lat1 lon1 lat2 lon2 = Inr (haversine_km exact lat1 lon1 lat2 lon2)"
proof -
  have "\<not> hav_a lat1 lon1 lat2 lon2 < 0" "\<not> 1 < hav_a lat1 lon1 lat2 lon2"
    using hav_a_ge0 [of lat1 lon1 lat2 lon2] hav_a_le1 [of lat1 lon1 lat2 lon2] by simp_all
  then show ?thesis by (simp add: haversine_eq computed_a_exact)
qed

lemma atan2_unit:
  assumes "0 \<le> y" "0 \<le> x" "x\<^sup>2 + y\<^sup>2 = 1"
  shows "0 \<le> atan2 y x \<and> atan2 y x \<le> pi / 2 \<and> sin (atan2 y x) = y \<and> cos (atan2 y x) = x"
proof (cases "0 < x")
  case True
  have t: "atan2 y x = arctan (y / x)" using True by (simp add: atan2_def)
  have nn: "0 \<le> y / x" using assms True by simp
  have "1 + (y / x)\<^sup>2 = (x\<^sup>2 + y\<^sup>2) / x\<^sup>2"
    using True by (simp add: power_divide field_simps)
  then have "1 + (y / x)\<^sup>2 = 1 / x\<^sup>2" using assms(3) by simp
  then have sq: "sqrt (1 + (y / x)\<^sup>2) = 1 / x"
    using True by (simp add: real_sqrt_divide)
  have "sin (arctan (y / x)) = y" "cos (arctan (y / x)) = x"
    using True by (simp_all add: sin_arctan cos_arctan sq)
  moreover have "0 \<le> arctan (y / x)" using nn by simp
  moreover have "arctan (y / x) \<le> pi / 2" using arctan_ubound [of "y / x"] by simp
  ultimately show ?thesis by (simp add: t)
next
  case False
  then have x0: "x = 0" using assms(2) by simp
  then have "y\<^sup>2 = 1" using assms(3) by simp
  then have "y = 1" using assms(1)
    by (metis abs_of_nonneg power2_eq_1_iff abs_1 abs_minus_cancel)
  then show ?thesis using x0 by (simp add: atan2_def)
qed

lemma radians_mono: "x \<le> y \<Longrightarrow> radians x \<le> radians y"
  by (simp add: radians_def mult_right_mono)

lemma radians_diff: "radians (x - y) = radians x - radians y"
  by (simp add: radians_def left_diff_distrib)

lemma radians_values: "radians 90 = pi / 2" "radians (- 90) = - (pi / 2)" "radians 180 = pi"
  "radians (- 180) = - pi" "radians 60 = pi / 3" "radians 0 = 0"
  by (simp_all add: radians_def)

text \<open>When no square root raises, the result is the arc sine form of the distance.\<close>

lemma haversine_km_arcsin:
  assumes "0 \<le> computed_a eps lat1 lon1 lat2 lon2" "computed_a eps lat1 lon1 lat2 lon2 \<le> 1"
  shows "haversine_km eps lat1 lon1 lat2 lon2 =
     6371 * (2 * arcsin (sqrt (computed_a eps lat1 lon1 lat2 lon2)))"
proof -
  let ?a = "computed_a eps lat1 lon1 lat2 lon2"
  have a0: "0 \<le> ?a" by (rule assms(1))
  have a1: "?a \<le> 1" by (rule assms(2))
  have "(sqrt (1 - ?a))\<^sup>2 + (sqrt ?a)\<^sup>2 = 1" using a0 a1 by simp
  then have u: "0 \<le> atan2 (sqrt ?a) (sqrt (1 - ?a))"
    "atan2 (sqrt ?a) (sqrt (1 - ?a)) \<le> pi / 2"
    "sin (atan2 (sqrt ?a) (sqrt (1 - ?a))) = sqrt ?a"
    using atan2_unit [of "sqrt ?a" "sqrt (1 - ?a)"] a0 a1 by simp_all
  have "arcsin (sqrt ?a) = atan2 (sqrt ?a) (sqrt (1 - ?a))"
    using u by (intro arcsin_unique) simp_all
  then show ?thesis by (simp add: haversine_km_def)
qed

lemma haversine_km_exact:
  "haversine_km exact lat1 lon1 lat2 lon2 = 6371 * (2 * arcsin (sqrt (hav_a lat1 lon1 lat2 lon2)))"
  using haversine_km_arcsin [of exact lat1 lon1 lat2 lon2] hav_a_ge0 [of lat1 lon1 lat2 lon2]
    hav_a_le1 [of lat1 lon1 lat2 lon2]
  by (simp add: computed_a_exact)

lemma haversine_range:
  assumes "haversine eps lat1 lon1 lat2 lon2 = Inr d"
  shows "0 \<le> d" and "d \<le> 6371 * pi"
proof -
  let ?a = "computed_a eps lat1 lon1 lat2 lon2"
  have a0: "0 \<le> ?a" and a1: "?a \<le> 1" and d: "d = haversine_km eps lat1 lon1 lat2 lon2"
    using haversine_Inr [OF assms] by simp_all
  have e: "d = 6371 * (2 * arcsin (sqrt ?a))"
    unfolding d using a0 a1 by (rule haversine_km_arcsin)
  have s: "0 \<le> sqrt ?a" "sqrt ?a \<le> 1" using a0 a1 by simp_all
  have lo: "0 \<le> arcsin (sqrt ?a)" using s by (simp add: arcsin_nonneg)
  have hi: "arcsin (sqrt ?a) \<le> pi / 2"
    using s arcsin_ubound [of "sqrt ?a"] by linarith
  show "0 \<le> d" unfolding e using lo by simp
  show "d \<le> 6371 * pi" unfolding e using hi by simp
qed

lemma hav_a_same_lon: "hav_a lat1 lon lat2 lon = (sin (radians (lat2 - lat1) / 2))\<^sup>2"
  by (simp add: hav_a_def radians_def)

lemma arcsin_abs_sin:
  assumes "\<bar>z\<bar> \<le> pi / 2"
  shows "arcsin (sqrt ((sin z)\<^sup>2)) = \<bar>z\<bar>"
proof -
  have "sqrt ((sin z)\<^sup>2) = \<bar>sin z\<bar>" by simp
  also have "\<dots> = sin \<bar>z\<bar>"
  proof (cases "0 \<le> z")
    case True
    then have "0 \<le> sin z" using assms by (intro sin_ge_zero) simp_all
    then show ?thesis using True by simp
  next
    case False
    then have "0 \<le> sin (- z)" using assms by (intro sin_ge_zero) simp_all
    then show ?thesis using False by simp
  qed
  finally have "sqrt ((sin z)\<^sup>2) = sin \<bar>z\<bar>" .
  then show ?thesis using assms by (simp add: arcsin_sin)
qed

text \<open>
  In exact arithmetic the distance of two points on one meridian is the arc between
  their latitudes.
\<close>

lemma haversine_km_same_lon:
  assumes "\<bar>lat2 - lat1\<bar> \<le> 180"
  shows "haversine_km exact lat1 lon lat2 lon = 6371 * \<bar>radians (lat2 - lat1)\<bar>"
proof -
  have "- 180 \<le> lat2 - lat1" "lat2 - lat1 \<le> 180" using assms by simp_all
  then have "- pi \<le> radians (lat2 - lat1)" "radians (lat2 - lat1) \<le> pi"
    using radians_mono [of "- 180" "lat2 - lat1"] radians_mono [of "lat2 - lat1" 180]
    by (simp_all add: radians_values)
  then have "\<bar>radians (lat2 - lat1) / 2\<bar> \<le> pi / 2" by simp
  then have "arcsin (sqrt ((sin (radians (lat2 - lat1) / 2))\<^sup>2)) = \<bar>radians (lat2 - lat1) / 2\<bar>"
    by (rule arcsin_abs_sin)
  then show ?thesis by (simp add: haversine_km_exact hav_a_same_lon)
qed

lemma haversine_same_lon:
  assumes "\<bar>lat2 - lat1\<bar> \<le> 180"
  shows "haversine exact lat1 lon lat2 lon = Inr (6371 * \<bar>radians (lat2 - lat1)\<bar>)"
  by (simp only: haversine_exact haversine_km_same_lon [OF assms])

text \<open>
  Between two valid latitudes the distance is at least the arc between the latitudes,
  provided the computed \<open>a\<close> is not below the exact one.
\<close>

lemma haversine_lat_lower:
  assumes "- 90 \<le> lat1" "lat1 \<le> 90" "- 90 \<le> lat2" "lat2 \<le> 90"
    and "0 \<le> eps lat1 lon1 lat2 lon2"
    and "haversine eps lat1 lon1 lat2 lon2 = Inr d"
  shows "6371 * \<bar>radians (lat2 - lat1)\<bar> \<le> d"
proof -
  let ?a = "computed_a eps lat1 lon1 lat2 lon2"
  let ?z = "radians (lat2 - lat1) / 2"
  have a0: "0 \<le> ?a" and a1: "?a \<le> 1" and d: "d = haversine_km eps lat1 lon1 lat2 lon2"
    using haversine_Inr [OF assms(6)] by simp_all
  have r1: "- (pi / 2) \<le> radians lat1" "radians lat1 \<le> pi / 2"
    using radians_mono [OF assms(1)] radians_mono [OF assms(2)] by (simp_all add: radians_values)
  have r2: "- (pi / 2) \<le> radians lat2" "radians lat2 \<le> pi / 2"
    using radians_mono [OF assms(3)] radians_mono [OF assms(4)] by (simp_all add: radians_values)
  have c: "0 \<le> cos (radians lat1)" "0 \<le> cos (radians lat2)"
    using r1 r2 by (simp_all add: cos_ge_zero)
  have "radians (lat2 - lat1) = radians lat2 - radians lat1"
    by (rule radians_diff)
  then have z: "\<bar>?z\<bar> \<le> pi / 2" using r1 r2 by simp
  have "0 \<le> cos (radians lat1) * cos (radians lat2) * (sin (radians (lon2 - lon1) / 2))\<^sup>2"
    using c by simp
  then have "(sin ?z)\<^sup>2 \<le> hav_a lat1 lon1 lat2 lon2" by (simp add: hav_a_def)
  then have ge: "(sin ?z)\<^sup>2 \<le> ?a" using assms(5) by (simp add: computed_a_def)
  have sq: "sqrt ((sin ?z)\<^sup>2) \<le> sqrt ?a" using ge by (rule real_sqrt_le_mono)
  have "- 1 \<le> sqrt ((sin ?z)\<^sup>2)"
    using real_sqrt_ge_zero [of "(sin ?z)\<^sup>2"] by simp
  moreover have "sqrt ?a \<le> 1" using a1 by simp
  ultimately have "arcsin (sqrt ((sin ?z)\<^sup>2)) \<le> arcsin (sqrt ?a)"
    using sq by (intro arcsin_le_arcsin)
  then have "\<bar>?z\<bar> \<le> arcsin (sqrt ?a)" using arcsin_abs_sin [OF z] by simp
  moreover have "d = 6371 * (2 * arcsin (sqrt ?a))"
    unfolding d using a0 a1 by (rule haversine_km_arcsin)
  ultimately show ?thesis by simp
qed

lemma haversine_60_180: "haversine exact 60 0 60 180 = Inr (6371 * pi / 3)"
proof -
  have r: "radians 60 = pi / 3" "radians (180 - 0) / 2 = pi / 2" "radians (60 - 60) = 0"
    by (simp_all add: radians_def)
  have h: "hav_a 60 0 60 180 = 1 / 4"
    unfolding hav_a_def r by (simp add: cos_60 power2_eq_square)
  have s: "sqrt (hav_a 60 0 60 180) = 1 / 2"
    unfolding h by (simp add: real_sqrt_divide)
  show ?thesis unfolding haversine_exact haversine_km_exact s by simp
qed

text \<open>
  For a point paired with itself the code computes \<open>a = 0.0\<close> without error (both
  sines are of 0.0), and the distance is 0, whatever the coordinates.
\<close>

lemma haversine_same_point:
  assumes "eps lat lon lat lon = 0"
  shows "haversine eps lat lon lat lon = Inr 0"
proof -
  have "computed_a eps lat lon lat lon = 0"
    using assms by (simp add: computed_a_def hav_a_def radians_def)
  then show ?thesis by (simp add: haversine_eq haversine_km_def atan2_def)
qed

text \<open>
  The square roots do raise on valid input: at (8, 0) and (-8, 180) the exact \<open>a\<close> is
  1, and with the error \<open>1 / 2 ^ 52\<close> the code has there, haversine raises.
\<close>

lemma hav_a_8_180: "hav_a 8 0 (- 8) 180 = 1"
proof -
  have r: "radians (180 - 0) / 2 = pi / 2" "radians (- 8 - 8) / 2 = - radians 8"
    "radians (- 8) = - radians 8"
    by (simp_all add: radians_def)
  show ?thesis unfolding hav_a_def r
    using sin_cos_squared_add [of "radians 8"] by (simp add: power2_eq_square)
qed

lemma haversine_raises_at_8: "haversine rounding_up_at_8 8 0 (- 8) 180 = Inl ValueError"
  by (simp add: haversine_eq computed_a_def hav_a_8_180 rounding_up_at_8_def)

text \<open>
  With special values: on four numbers the call is the one above; an infinite
  latitude or an infinite difference of the longitudes makes the call raise
  ValueError; without these, a NaN among the arguments makes it return NaN.
\<close>

lemma haversine_float_finite:
  "haversine_float eps (Fin lat1) (Fin lon1) (Fin lat2) (Fin lon2) =
     (if computed_a eps lat1 lon1 lat2 lon2 < 0 \<or> 1 < computed_a eps lat1 lon1 lat2 lon2
      then Inl ValueError
      else Inr (Fin (haversine_km eps lat1 lon1 lat2 lon2)))"
  by (simp add: haversine_float_def is_inf_def haversine_eq)

lemma haversine_float_infinite:
  assumes "is_inf lat1 \<or> is_inf lat2 \<or> is_inf (py_sub lon2 lon1)"
  shows "haversine_float eps lat1 lon1 lat2 lon2 = Inl ValueError"
  using assms by (auto simp: haversine_float_def Let_def)

lemma py_sub_not_inf: "\<not> is_inf x \<Longrightarrow> \<not> is_inf y \<Longrightarrow> \<not> is_inf (py_sub x y)"
  by (cases x; cases y) (simp_all add: is_inf_def)

lemma haversine_float_nan:
  assumes "\<not> is_inf lat1" "\<not> is_inf lat2" "\<not> is_inf (py_sub lon2 lon1)"
    and "lat1 = NaN \<or> lon1 = NaN \<or> lat2 = NaN \<or> lon2 = NaN"
  shows "haversine_float eps lat1 lon1 lat2 lon2 = Inr NaN"
proof -
  have "\<not> is_inf (py_sub lat2 lat1)" using assms(1,2) by (simp add: py_sub_not_inf)
  then have c: "\<not> (is_inf (py_sub lat2 lat1) \<or> is_inf lat1 \<or> is_inf lat2
      \<or> is_inf (py_sub lon2 lon1))"
    using assms(1-3) by simp
  have "(case (lat1, lon1, lat2, lon2) of
           (Fin x1, Fin y1, Fin x2, Fin y2) \<Rightarrow>
             (case haversine eps x1 y1 x2 y2 of Inl e \<Rightarrow> Inl e | Inr d \<Rightarrow> Inr (Fin d))
         | _ \<Rightarrow> Inr NaN) = Inr NaN"
    using assms(4) by (auto split: pyfloat.splits)
  then show ?thesis using c by (simp add: haversine_float_def Let_def)
qed

text \<open>
  C7 (as the code has it). haversine checks no range: whether it fails does not depend
  on the validity of the coordinates. On numbers it raises ValueError exactly when the
  value it computes for \<open>a\<close> is below 0 or above 1; otherwise it returns a number,
  and that number lies between 0 and 6371 pi. A point paired with itself, where \<open>a\<close>
  is computed without error, gets the distance 0, in range or out of range. An
  infinite latitude, or an infinite difference of the longitudes, makes it raise
  ValueError; without these, a NaN among the arguments makes it return NaN and raise
  nothing.
\<close>

theorem haversine_checks_no_range:
  "haversine_float eps (Fin lat1) (Fin lon1) (Fin lat2) (Fin lon2) =
     (if computed_a eps lat1 lon1 lat2 lon2 < 0 \<or> 1 < computed_a eps lat1 lon1 lat2 lon2
      then Inl ValueError
      else Inr (Fin (haversine_km eps lat1 lon1 lat2 lon2)))
   \<and> (haversine_float eps (Fin lat1) (Fin lon1) (Fin lat2) (Fin lon2) = Inr (Fin d) \<longrightarrow>
        0 \<le> d \<and> d \<le> 6371 * pi)
   \<and> (eps lat1 lon1 lat1 lon1 = 0 \<longrightarrow>
        haversine_float eps (Fin lat1) (Fin lon1) (Fin lat1) (Fin lon1) = Inr (Fin 0))
   \<and> (is_inf u1 \<or> is_inf u2 \<or> is_inf (py_sub v2 v1) \<longrightarrow>
        haversine_float eps u1 v1 u2 v2 = Inl ValueError)
   \<and> (\<not> is_inf u1 \<and> \<not> is_inf u2 \<and> \<not> is_inf (py_sub v2 v1)
       \<and> (u1 = NaN \<or> v1 = NaN \<or> u2 = NaN \<or> v2 = NaN) \<longrightarrow>
        haversine_float eps u1 v1 u2 v2 = Inr NaN)"
proof (intro conjI impI)
  show "haversine_float eps (Fin lat1) (Fin lon1) (Fin lat2) (Fin lon2) =
     (if computed_a eps lat1 lon1 lat2 lon2 < 0 \<or> 1 < computed_a eps lat1 lon1 lat2 lon2
      then Inl ValueError
      else Inr (Fin (haversine_km eps lat1 lon1 lat2 lon2)))"
    by (rule haversine_float_finite)
next
  assume "haversine_float eps (Fin lat1) (Fin lon1) (Fin lat2) (Fin lon2) = Inr (Fin d)"
  then have "haversine eps lat1 lon1 lat2 lon2 = Inr d"
    by (simp add: haversine_float_finite haversine_eq split: if_splits)
  then show "0 \<le> d" and "d \<le> 6371 * pi" by (rule haversine_range)+
next
  assume "eps lat1 lon1 lat1 lon1 = 0"
  then have "haversine eps lat1 lon1 lat1 lon1 = Inr 0" by (rule haversine_same_point)
  then show "haversine_float eps (Fin lat1) (Fin lon1) (Fin lat1) (Fin lon1) = Inr (Fin 0)"
    by (simp add: haversine_float_def is_inf_def)
next
  assume "is_inf u1 \<or> is_inf u2 \<or> is_inf (py_sub v2 v1)"
  then show "haversine_float eps u1 v1 u2 v2 = Inl ValueError"
    by (rule haversine_float_infinite)
next
  assume "\<not> is_inf u1 \<and> \<not> is_inf u2 \<and> \<not> is_inf (py_sub v2 v1)
       \<and> (u1 = NaN \<or> v1 = NaN \<or> u2 = NaN \<or> v2 = NaN)"
  then show "haversine_float eps u1 v1 u2 v2 = Inr NaN"
    by (simp add: haversine_float_nan)
qed

text \<open>
  Instances: the out-of-range point (100, 200) paired with itself gets 0; an infinite
  first latitude raises; a NaN first latitude with three numbers returns NaN.
\<close>

theorem haversine_checks_no_range_witness:
  "exact 100 200 100 200 = 0
   \<and> haversine_float exact (Fin 100) (Fin 200) (Fin 100) (Fin 200) = Inr (Fin 0)
   \<and> 0 \<le> (0::real) \<and> (0::real) \<le> 6371 * pi
   \<and> is_inf PosInf
   \<and> haversine_float exact PosInf (Fin 0) (Fin 0) (Fin 0) = Inl ValueError
   \<and> \<not> is_inf NaN \<and> \<not> is_inf (Fin 0) \<and> \<not> is_inf (py_sub (Fin 0) (Fin 0))
   \<and> haversine_float exact NaN (Fin 0) (Fin 0) (Fin 0) = Inr NaN"
proof -
  have e: "exact 100 200 100 200 = 0" by (simp add: exact_def)
  have i: "is_inf PosInf" "\<not> is_inf NaN" "\<not> is_inf (Fin 0)"
    "\<not> is_inf (py_sub (Fin 0) (Fin 0))"
    by (simp_all add: is_inf_def)
  note t1 = haversine_checks_no_range
    [of exact 100 200 100 200 0 PosInf "Fin 0" "Fin 0" "Fin 0", THEN conjunct2]
  note t2 = haversine_checks_no_range
    [of exact 100 200 100 200 0 NaN "Fin 0" "Fin 0" "Fin 0", THEN conjunct2]
  have a: "haversine_float exact (Fin 100) (Fin 200) (Fin 100) (Fin 200) = Inr (Fin 0)"
    using t1 e by blast
  have b: "0 \<le> (0::real) \<and> (0::real) \<le> 6371 * pi"
    using t1 a by blast
  have c: "haversine_float exact PosInf (Fin 0) (Fin 0) (Fin 0) = Inl ValueError"
    using t1 i by blast
  have d: "haversine_float exact NaN (Fin 0) (Fin 0) (Fin 0) = Inr NaN"
    using t2 i by blast
  show ?thesis using e a b c d i by (simp only: simp_thms)
qed

text \<open>
  The claim of C7 fails at latitude 91 and longitude 181, both out of range: haversine
  returns the number 0 for the distance of that point from itself. It fails at NaN as
  well: with a NaN latitude haversine returns NaN and raises nothing.
\<close>

theorem haversine_out_of_range:
  "haversine_float exact (Fin 91) (Fin 181) (Fin 91) (Fin 181) = Inr (Fin 0)
   \<and> haversine_float exact NaN (Fin 0) (Fin 0) (Fin 0) = Inr NaN"
proof -
  have "haversine exact 91 181 91 181 = Inr 0"
    by (simp add: haversine_same_point exact_def)
  then show ?thesis by (simp add: haversine_float_def is_inf_def)
qed

section \<open>Properties of bounding_box\<close>

text \<open>One degree of latitude is more than 111 km of arc.\<close>

lemma km_per_degree: "111 * \<bar>x\<bar> \<le> 6371 * \<bar>radians x\<bar>"
proof -
  have "(111::real) \<le> 6371 * (pi / 180)" using pi_lower by simp
  then have step: "111 * \<bar>x\<bar> \<le> 6371 * (pi / 180) * \<bar>x\<bar>"
    by (rule mult_right_mono) simp
  have e: "6371 * \<bar>radians x\<bar> = 6371 * (pi / 180) * \<bar>x\<bar>"
    by (simp add: radians_def abs_mult)
  show ?thesis unfolding e by (rule step)
qed

lemma cos_of_degrees_nonzero: "cos_of_degrees lat \<noteq> 0"
  by (simp add: cos_of_degrees_def)

lemma bounding_box_eq:
  "bounding_box lat lon r =
     (lat - r / 111, lat + r / 111,
      lon - r / (111 * cos_of_degrees lat), lon + r / (111 * cos_of_degrees lat))"
  by (simp add: bounding_box_def Let_def)

text \<open>At the poles there is a box, as in the code: its longitude interval is enormous.\<close>

lemma bounding_box_pole:
  "bounding_box 90 lon r =
     (90 - r / 111, 90 + r / 111,
      lon - r / (111 * (6123233995736766 / 10 ^ 32)),
      lon + r / (111 * (6123233995736766 / 10 ^ 32)))"
  by (simp add: bounding_box_eq cos_of_degrees_def radians_values)

lemma bounding_box_60:
  "bounding_box 60 0 6700 =
     (60 - 6700 / 111, 60 + 6700 / 111, 0 - 13400 / 111, 0 + 13400 / 111)"
  by (simp add: bounding_box_eq cos_of_degrees_def radians_values cos_60)

lemma bounding_box_0:
  "bounding_box 0 0 r = (0 - r / 111, 0 + r / 111, 0 - r / 111, 0 + r / 111)"
  by (simp add: bounding_box_eq cos_of_degrees_def radians_values)

lemma haversine_0_12: "haversine exact 0 0 12 0 = Inr (6371 * pi / 15)"
  using haversine_same_lon [of 12 0 0] by (simp add: radians_def)

text \<open>
  C1 (as the code has it). When the origin and the place both have a latitude in
  [-90, 90] and the haversine distance of the place is at most r, the latitude of the
  place lies within the latitude interval of bounding_box at radius r. The distance
  is the one haversine returns from a value of \<open>a\<close> that is not below the exact
  one, as in exact arithmetic. Nothing of the kind holds for the longitude interval.
\<close>

theorem bounding_box_latitude_sound:
  assumes "- 90 \<le> lat" "lat \<le> 90" "- 90 \<le> Latitude p" "Latitude p \<le> 90"
    and "0 \<le> eps lat lon (Latitude p) (Longitude p)"
    and "haversine eps lat lon (Latitude p) (Longitude p) = Inr d"
    and "d \<le> r"
  shows "(case bounding_box lat lon r of
            (min_lat, max_lat, min_lon, max_lon) \<Rightarrow>
              min_lat \<le> Latitude p \<and> Latitude p \<le> max_lat)"
proof -
  have "6371 * \<bar>radians (Latitude p - lat)\<bar> \<le> d"
    using assms(1-6) by (rule haversine_lat_lower)
  then have "111 * \<bar>Latitude p - lat\<bar> \<le> r"
    using km_per_degree [of "Latitude p - lat"] assms(7) by linarith
  then have "\<bar>Latitude p - lat\<bar> \<le> r / 111" by simp
  then have a: "Latitude p - lat \<le> r / 111" and b: "- (Latitude p - lat) \<le> r / 111"
    by (simp_all only: abs_le_iff)
  have "lat - r / 111 \<le> Latitude p" "Latitude p \<le> lat + r / 111"
    using a b by linarith+
  then show ?thesis by (simp add: bounding_box_eq)
qed

text \<open>
  An instance: the origin (0, 0), the place Fort at latitude 12 on the same meridian,
  and the radius 1340, which is just above the distance 6371 pi / 15 of the place.
\<close>

theorem bounding_box_latitude_sound_witness:
  "- 90 \<le> (0::real) \<and> (0::real) \<le> 90
   \<and> - 90 \<le> Latitude (place ''Fort'' ''A'' 12 0) \<and> Latitude (place ''Fort'' ''A'' 12 0) \<le> 90
   \<and> 0 \<le> exact 0 0 (Latitude (place ''Fort'' ''A'' 12 0)) (Longitude (place ''Fort'' ''A'' 12 0))
   \<and> haversine exact 0 0 (Latitude (place ''Fort'' ''A'' 12 0))
        (Longitude (place ''Fort'' ''A'' 12 0)) = Inr (6371 * pi / 15)
   \<and> 6371 * pi / 15 \<le> 1340
   \<and> bounding_box 0 0 1340 = (0 - 1340 / 111, 0 + 1340 / 111, 0 - 1340 / 111, 0 + 1340 / 111)
   \<and> (case bounding_box 0 0 1340 of
        (min_lat, max_lat, min_lon, max_lon) \<Rightarrow>
          min_lat \<le> Latitude (place ''Fort'' ''A'' 12 0)
          \<and> Latitude (place ''Fort'' ''A'' 12 0) \<le> max_lat)"
proof -
  let ?p = "place ''Fort'' ''A'' 12 0"
  have a: "- 90 \<le> (0::real)" "(0::real) \<le> 90" "- 90 \<le> Latitude ?p" "Latitude ?p \<le> 90"
    by (simp_all add: place_def)
  have e: "0 \<le> exact 0 0 (Latitude ?p) (Longitude ?p)" by (simp add: exact_def)
  have h: "haversine exact 0 0 (Latitude ?p) (Longitude ?p) = Inr (6371 * pi / 15)"
    by (simp add: place_def haversine_0_12)
  have d: "6371 * pi / 15 \<le> 1340" using pi_upper by simp
  have b: "bounding_box 0 0 1340 =
      (0 - 1340 / 111, 0 + 1340 / 111, 0 - 1340 / 111, 0 + 1340 / 111)"
    by (rule bounding_box_0)
  show ?thesis
    using bounding_box_latitude_sound [OF a e h d] a e h d b by (simp only: simp_thms)
qed

text \<open>
  The claim of C1 fails for the origin (60, 0), the place (60, 180) and the radius 6700:
  the haversine distance is 6371 pi / 3, which is below 6700, while the longitude
  interval of the box ends at 13400 / 111, which is below 180; the place is outside
  the box. With the target 6550 and the tolerance 150 the distance of the place is
  within the band and the box filter of filter_places discards it.
\<close>

theorem bounding_box_longitude_unsound:
  "haversine exact 60 0 60 180 = Inr (6371 * pi / 3) \<and> 6371 * pi / 3 \<le> 6700
   \<and> bounding_box 60 0 6700 =
       (60 - 6700 / 111, 60 + 6700 / 111, 0 - 13400 / 111, 0 + 13400 / 111)
   \<and> 0 + 13400 / 111 < (180::real)
   \<and> \<not> in_box (bounding_box 60 0 6700) (place ''P'' ''X'' 60 180)
   \<and> 6550 - 150 \<le> 6371 * pi / 3 \<and> 6371 * pi / 3 \<le> 6550 + 150
   \<and> matching_rows exact 60 0 6550 150 [place ''P'' ''X'' 60 180] = []"
proof -
  have d: "6371 * pi / 3 \<le> 6700" "6400 \<le> 6371 * pi / 3"
    using pi_upper pi_lower by simp_all
  have m: "matching_rows exact 60 0 6550 150 [place ''P'' ''X'' 60 180] = []"
    by (simp add: matching_rows_def filtered_rows_def candidate_rows_def band_filter_def
        bounding_box_60 in_box_def place_def)
  show ?thesis
    using d haversine_60_180 m by (simp add: bounding_box_60 in_box_def place_def)
qed

section \<open>Properties of filter_places\<close>

lemma apply_haversine_Inr:
  "apply_haversine eps lat_x lon_x rs = Inr ds \<Longrightarrow>
   ds = map (\<lambda>r. haversine_km eps lat_x lon_x (Latitude r) (Longitude r)) rs"
proof (induction rs arbitrary: ds)
  case Nil
  then show ?case by simp
next
  case (Cons r rs)
  obtain d where d: "haversine eps lat_x lon_x (Latitude r) (Longitude r) = Inr d"
    using Cons.prems by (cases "haversine eps lat_x lon_x (Latitude r) (Longitude r)") simp_all
  obtain ds' where ds': "apply_haversine eps lat_x lon_x rs = Inr ds'"
    using Cons.prems d by (cases "apply_haversine eps lat_x lon_x rs") simp_all
  have "ds = d # ds'" using Cons.prems d ds' by simp
  moreover have "d = haversine_km eps lat_x lon_x (Latitude r) (Longitude r)"
    using d by (rule haversine_Inr(3))
  moreover have "ds' = map (\<lambda>r. haversine_km eps lat_x lon_x (Latitude r) (Longitude r)) rs"
    using ds' by (rule Cons.IH)
  ultimately show ?case by simp
qed

lemma apply_haversine_Inl:
  "apply_haversine eps lat_x lon_x rs = Inl e \<Longrightarrow> e = ValueError"
proof (induction rs)
  case Nil
  then show ?case by simp
next
  case (Cons r rs)
  then show ?case
    by (auto simp: haversine_eq split: if_splits sum.splits)
qed

lemma apply_haversine_exact:
  "apply_haversine exact lat_x lon_x rs =
     Inr (map (\<lambda>r. haversine_km exact lat_x lon_x (Latitude r) (Longitude r)) rs)"
  by (induction rs) (simp_all add: haversine_exact)

lemma distance_column_Inr:
  assumes "distance_column on_empty eps lat_x lon_x rs = Inr ds"
  shows "ds = map (\<lambda>r. haversine_km eps lat_x lon_x (Latitude r) (Longitude r)) rs"
proof (cases "rs = []")
  case True
  then show ?thesis using assms by (simp add: distance_column_def split: option.splits)
next
  case False
  then have "apply_haversine eps lat_x lon_x rs = Inr ds"
    using assms by (simp add: distance_column_def)
  then show ?thesis by (rule apply_haversine_Inr)
qed

lemma distance_column_exact:
  assumes "rs \<noteq> []"
  shows "distance_column on_empty exact lat_x lon_x rs =
     Inr (map (\<lambda>r. haversine_km exact lat_x lon_x (Latitude r) (Longitude r)) rs)"
  using assms by (simp add: distance_column_def apply_haversine_exact)

text \<open>A query with no catalog row inside the box ends as the library decides.\<close>

lemma distance_column_empty:
  "distance_column None eps lat_x lon_x [] = Inr []"
  "distance_column (Some e) eps lat_x lon_x [] = Inl e"
  by (simp_all add: distance_column_def)

lemma zip_map_same: "map (\<lambda>(r, x). g r x) (zip xs (map f xs)) = map (\<lambda>r. g r (f r)) xs"
  by (induction xs) simp_all

lemma set_distance_km_candidates:
  "set_distance_km \<lparr>columns = cols, rows = filter (in_box box) rs\<rparr>
     (map (\<lambda>r. haversine_km eps lat_x lon_x (Latitude r) (Longitude r)) (filter (in_box box) rs)) =
   \<lparr>columns = with_distance_km cols, rows = candidate_rows eps lat_x lon_x box rs\<rparr>"
  by (simp add: set_distance_km_def candidate_rows_def zip_map_same)

lemma with_distance_km_mem:
  "c \<noteq> ''distance_km'' \<Longrightarrow> c \<in> set (with_distance_km cols) \<longleftrightarrow> c \<in> set cols"
  by (simp add: with_distance_km_def)

text \<open>The two KeyErrors leave the state as it was.\<close>

lemma filter_places_no_latitude:
  "''Latitude'' \<notin> set (columns (heap s df)) \<Longrightarrow>
   filter_places sort_values on_empty eps s df lat_x lon_x max_distance_km tolerance =
     (Inl (KeyError ''Latitude''), s)"
  by (simp add: filter_places_def)

lemma filter_places_no_longitude:
  "''Latitude'' \<in> set (columns (heap s df)) \<Longrightarrow>
   ''Longitude'' \<notin> set (columns (heap s df)) \<Longrightarrow>
   filter_places sort_values on_empty eps s df lat_x lon_x max_distance_km tolerance =
     (Inl (KeyError ''Longitude''), s)"
  by (simp add: filter_places_def)

text \<open>
  When step 2 raises, the call ends with that error; the two frames of step 1 have
  been made.
\<close>

lemma filter_places_apply_error:
  assumes box: "bounding_box lat_x lon_x (max_distance_km + tolerance) = box"
    and lat: "''Latitude'' \<in> set (columns (heap s df))"
    and lon: "''Longitude'' \<in> set (columns (heap s df))"
    and app: "distance_column on_empty eps lat_x lon_x (filter (in_box box) (rows (heap s df))) = Inl e"
  shows "filter_places sort_values on_empty eps s df lat_x lon_x max_distance_km tolerance =
     (Inl e,
      s\<lparr>heap := (heap s)
           (next_free s := \<lparr>columns = columns (heap s df),
                            rows = filter (in_box box) (rows (heap s df))\<rparr>,
            Suc (next_free s) := \<lparr>columns = columns (heap s df),
                                  rows = filter (in_box box) (rows (heap s df))\<rparr>),
        next_free := Suc (Suc (next_free s))\<rparr>)"
proof -
  let ?n = "next_free s"
  let ?m = "\<lparr>columns = columns (heap s df), rows = filter (in_box box) (rows (heap s df))\<rparr>"
  define s1 where "s1 = s\<lparr>heap := (heap s)(?n := ?m), next_free := Suc ?n\<rparr>"
  have a1: "alloc ?m s = (?n, s1)" by (simp add: alloc_def s1_def)
  have p1: "heap s1 ?n = ?m" "next_free s1 = Suc ?n" by (simp_all add: s1_def)
  define s2 where "s2 = s1\<lparr>heap := (heap s1)(Suc ?n := ?m), next_free := Suc (Suc ?n)\<rparr>"
  have a2: "alloc ?m s1 = (Suc ?n, s2)" by (simp add: alloc_def s2_def p1)
  have p2: "heap s2 (Suc ?n) = ?m" by (simp add: s2_def)
  have main: "filter_places sort_values on_empty eps s df lat_x lon_x max_distance_km tolerance =
      (Inl e, s2)"
    unfolding filter_places_def
    by (simp add: box lat lon a1 p1 a2 p2 app)
  have s2: "s2 = s\<lparr>heap := (heap s)(?n := ?m, Suc ?n := ?m), next_free := Suc (Suc ?n)\<rparr>"
    by (simp add: s2_def s1_def)
  show ?thesis unfolding main s2 by (rule refl)
qed

text \<open>
  In particular, when no row of the catalog is inside the box and the library refuses
  the assignment of step 2, the call raises instead of returning an empty list.
\<close>

lemma filter_places_no_candidates:
  assumes "''Latitude'' \<in> set (columns (heap s df))"
    and "''Longitude'' \<in> set (columns (heap s df))"
    and "filter (in_box (bounding_box lat_x lon_x (max_distance_km + tolerance)))
           (rows (heap s df)) = []"
  shows "fst (filter_places sort_values (Some e) eps s df lat_x lon_x max_distance_km tolerance) =
           Inl e"
proof -
  have "distance_column (Some e) eps lat_x lon_x
      (filter (in_box (bounding_box lat_x lon_x (max_distance_km + tolerance)))
         (rows (heap s df))) = Inl e"
    by (simp add: assms(3) distance_column_empty)
  then show ?thesis
    by (simp add: filter_places_apply_error [OF refl assms(1,2)])
qed

text \<open>
  When step 2 raises nothing, the call makes four frames, prints one line and
  returns.
\<close>

lemma filter_places_unfold:
  assumes box: "bounding_box lat_x lon_x (max_distance_km + tolerance) = box"
    and lat: "''Latitude'' \<in> set (columns (heap s df))"
    and lon: "''Longitude'' \<in> set (columns (heap s df))"
    and app: "distance_column on_empty eps lat_x lon_x (filter (in_box box) (rows (heap s df))) = Inr ds"
  shows "filter_places sort_values on_empty eps s df lat_x lon_x max_distance_km tolerance =
     (let n = next_free s;
          cols = columns (heap s df);
          fr = filtered_rows eps lat_x lon_x box max_distance_km tolerance (rows (heap s df));
          h = (heap s)
               (n := \<lparr>columns = cols, rows = filter (in_box box) (rows (heap s df))\<rparr>,
                Suc n := \<lparr>columns = with_distance_km cols,
                          rows = candidate_rows eps lat_x lon_x box (rows (heap s df))\<rparr>,
                Suc (Suc n) := \<lparr>columns = with_distance_km cols, rows = fr\<rparr>,
                Suc (Suc (Suc n)) := \<lparr>columns = with_distance_km cols,
                                      rows = sort_values distance_km fr\<rparr>);
          city = collect_cities (sort_values distance_km fr) []
      in if ''City'' \<in> set cols \<and> ''Name'' \<in> set cols
         then (Inr (take 5 city),
               s\<lparr>heap := h, next_free := Suc (Suc (Suc (Suc n))),
                 stdout := stdout s @ [PrintCities (take 5 city)]\<rparr>)
         else (Inr [],
               s\<lparr>heap := h, next_free := Suc (Suc (Suc (Suc n))),
                 stdout := stdout s @ [PrintColumnsNotFound]\<rparr>))"
proof -
  let ?n = "next_free s"
  let ?cols = "columns (heap s df)"
  let ?m = "\<lparr>columns = ?cols, rows = filter (in_box box) (rows (heap s df))\<rparr>"
  let ?c = "\<lparr>columns = with_distance_km ?cols,
             rows = candidate_rows eps lat_x lon_x box (rows (heap s df))\<rparr>"
  let ?fr = "filtered_rows eps lat_x lon_x box max_distance_km tolerance (rows (heap s df))"
  let ?f = "\<lparr>columns = with_distance_km ?cols, rows = ?fr\<rparr>"
  let ?o = "\<lparr>columns = with_distance_km ?cols, rows = sort_values distance_km ?fr\<rparr>"
  have app': "distance_column on_empty eps lat_x lon_x (filter (in_box box) (rows (heap s df))) =
      Inr (map (\<lambda>r. haversine_km eps lat_x lon_x (Latitude r) (Longitude r))
             (filter (in_box box) (rows (heap s df))))"
    using app distance_column_Inr [OF app] by simp
  define s1 where "s1 = s\<lparr>heap := (heap s)(?n := ?m), next_free := Suc ?n\<rparr>"
  have a1: "alloc ?m s = (?n, s1)" by (simp add: alloc_def s1_def)
  have p1: "heap s1 ?n = ?m" "next_free s1 = Suc ?n" by (simp_all add: s1_def)
  define s2 where "s2 = s1\<lparr>heap := (heap s1)(Suc ?n := ?m), next_free := Suc (Suc ?n)\<rparr>"
  have a2: "alloc ?m s1 = (Suc ?n, s2)" by (simp add: alloc_def s2_def p1)
  have p2: "heap s2 (Suc ?n) = ?m" by (simp add: s2_def)
  define s3 where "s3 = s2\<lparr>heap := (heap s2)(Suc ?n := ?c)\<rparr>"
  have p3: "heap s3 (Suc ?n) = ?c" "next_free s3 = Suc (Suc ?n)" by (simp_all add: s3_def s2_def)
  define s4 where "s4 = s3\<lparr>heap := (heap s3)(Suc (Suc ?n) := ?f), next_free := Suc (Suc (Suc ?n))\<rparr>"
  have a4: "alloc ?f s3 = (Suc (Suc ?n), s4)" by (simp add: alloc_def s4_def p3)
  have p4: "heap s4 (Suc (Suc ?n)) = ?f" by (simp add: s4_def)
  define s5 where "s5 = s4\<lparr>heap := (heap s4)(Suc (Suc (Suc ?n)) := ?o),
                            next_free := Suc (Suc (Suc (Suc ?n)))\<rparr>"
  have a5: "alloc ?o s4 = (Suc (Suc (Suc ?n)), s5)" by (simp add: alloc_def s5_def s4_def)
  have p5: "heap s5 (Suc (Suc (Suc ?n))) = ?o" by (simp add: s5_def)
  have main: "filter_places sort_values on_empty eps s df lat_x lon_x max_distance_km tolerance =
     (if ''City'' \<in> set ?cols \<and> ''Name'' \<in> set ?cols
      then (Inr (take 5 (collect_cities (sort_values distance_km ?fr) [])),
            s5\<lparr>stdout := stdout s5 @
                [PrintCities (take 5 (collect_cities (sort_values distance_km ?fr) []))]\<rparr>)
      else (Inr [], s5\<lparr>stdout := stdout s5 @ [PrintColumnsNotFound]\<rparr>))"
    unfolding filter_places_def
    by (simp add: box lat lon a1 p1 a2 p2 app' set_distance_km_candidates
        s3_def [symmetric] p3 filtered_rows_def [symmetric] a4 p4 a5 p5 with_distance_km_mem)
      (simp add: Let_def)
  have s5: "s5 = s\<lparr>heap := (heap s)(?n := ?m, Suc ?n := ?c, Suc (Suc ?n) := ?f,
                        Suc (Suc (Suc ?n)) := ?o),
                   next_free := Suc (Suc (Suc (Suc ?n)))\<rparr>"
    by (simp add: s5_def s4_def s3_def s2_def s1_def)
  have o: "stdout s5 = stdout s" by (simp add: s5)
  show ?thesis unfolding main o unfolding s5 by (simp add: Let_def)
qed

lemma filter_places_result:
  assumes "bounding_box lat_x lon_x (max_distance_km + tolerance) = box"
    and "''Latitude'' \<in> set (columns (heap s df))"
    and "''Longitude'' \<in> set (columns (heap s df))"
    and "distance_column on_empty eps lat_x lon_x (filter (in_box box) (rows (heap s df))) = Inr ds"
  shows "fst (filter_places sort_values on_empty eps s df lat_x lon_x max_distance_km tolerance) =
     (if ''City'' \<in> set (columns (heap s df)) \<and> ''Name'' \<in> set (columns (heap s df))
      then Inr (take 5 (collect_cities (sort_values distance_km
             (filtered_rows eps lat_x lon_x box max_distance_km tolerance (rows (heap s df)))) []))
      else Inr [])"
  by (simp add: filter_places_unfold [OF assms] Let_def)


lemma filter_places_heap:
  assumes "bounding_box lat_x lon_x (max_distance_km + tolerance) = box"
    and "''Latitude'' \<in> set (columns (heap s df))"
    and "''Longitude'' \<in> set (columns (heap s df))"
    and "distance_column on_empty eps lat_x lon_x (filter (in_box box) (rows (heap s df))) = Inr ds"
  shows "heap (snd (filter_places sort_values on_empty eps s df lat_x lon_x max_distance_km tolerance)) =
     (heap s)
       (next_free s := \<lparr>columns = columns (heap s df),
                        rows = filter (in_box box) (rows (heap s df))\<rparr>,
        Suc (next_free s) := \<lparr>columns = with_distance_km (columns (heap s df)),
                              rows = candidate_rows eps lat_x lon_x box (rows (heap s df))\<rparr>,
        Suc (Suc (next_free s)) := \<lparr>columns = with_distance_km (columns (heap s df)),
            rows = filtered_rows eps lat_x lon_x box max_distance_km tolerance (rows (heap s df))\<rparr>,
        Suc (Suc (Suc (next_free s))) := \<lparr>columns = with_distance_km (columns (heap s df)),
            rows = sort_values distance_km
              (filtered_rows eps lat_x lon_x box max_distance_km tolerance (rows (heap s df)))\<rparr>)"
  by (simp add: filter_places_unfold [OF assms] Let_def)















subsection \<open>The example catalog\<close>


lemma example_distances:
  "haversine_km exact 0 0 10 0 = 6371 * pi / 18"
  "haversine_km exact 0 0 11 0 = 70081 * pi / 180"
  "haversine_km exact 0 0 12 0 = 6371 * pi / 15"
  "haversine_km exact 0 0 13 0 = 82823 * pi / 180"
  by (simp_all add: haversine_km_same_lon radians_def)

lemma example_bounds:
  "6371 * pi / 18 < 1150"
  "1150 \<le> 70081 * pi / 180" "70081 * pi / 180 \<le> 1450"
  "1150 \<le> 6371 * pi / 15" "6371 * pi / 15 \<le> 1450"
  "1150 \<le> 82823 * pi / 180" "82823 * pi / 180 \<le> 1450"
  "70081 * pi / 180 \<le> 6371 * pi / 15" "6371 * pi / 15 \<le> 82823 * pi / 180"
  using pi_lower pi_upper by simp_all

lemma example_bounding_box: "bounding_box 0 0 (1300 + 150) = example_box"
  by (simp add: bounding_box_0 example_box_def)

lemma example_candidates:
  "candidate_rows exact 0 0 example_box example_rows =
     [(place ''Fort'' ''A'' 12 0)\<lparr>distance_km := 6371 * pi / 15\<rparr>,
      (place ''Lake'' ''B'' 11 0)\<lparr>distance_km := 70081 * pi / 180\<rparr>,
      (place ''Gate'' ''A'' 13 0)\<lparr>distance_km := 82823 * pi / 180\<rparr>,
      (place ''Hill'' ''C'' 10 0)\<lparr>distance_km := 6371 * pi / 18\<rparr>]"
  by (simp add: candidate_rows_def example_rows_def in_box_def example_box_def place_def
      example_distances)

lemma example_filtered:
  "filtered_rows exact 0 0 example_box 1300 150 example_rows =
     [(place ''Fort'' ''A'' 12 0)\<lparr>distance_km := 6371 * pi / 15\<rparr>,
      (place ''Lake'' ''B'' 11 0)\<lparr>distance_km := 70081 * pi / 180\<rparr>,
      (place ''Gate'' ''A'' 13 0)\<lparr>distance_km := 82823 * pi / 180\<rparr>]"
  using example_bounds
  by (simp add: filtered_rows_def example_candidates band_filter_def place_def)

lemma example_matching:
  "matching_rows exact 0 0 1300 150 example_rows =
     [(place ''Fort'' ''A'' 12 0)\<lparr>distance_km := 6371 * pi / 15\<rparr>,
      (place ''Lake'' ''B'' 11 0)\<lparr>distance_km := 70081 * pi / 180\<rparr>,
      (place ''Gate'' ''A'' 13 0)\<lparr>distance_km := 82823 * pi / 180\<rparr>]"
  by (simp only: matching_rows_def example_bounding_box example_filtered)

lemma example_sorted:
  "sort_values_stable distance_km (filtered_rows exact 0 0 example_box 1300 150 example_rows) =
     [(place ''Lake'' ''B'' 11 0)\<lparr>distance_km := 70081 * pi / 180\<rparr>,
      (place ''Fort'' ''A'' 12 0)\<lparr>distance_km := 6371 * pi / 15\<rparr>,
      (place ''Gate'' ''A'' 13 0)\<lparr>distance_km := 82823 * pi / 180\<rparr>]"
  using example_bounds
  by (simp add: example_filtered sort_values_stable_def place_def)

lemma example_cities:
  "collect_cities
     (sort_values_stable distance_km
        (filtered_rows exact 0 0 example_box 1300 150 example_rows)) [] =
     [''B'', ''A'']"
  by (simp add: example_sorted place_def)

lemma example_columns:
  "columns (heap (state_with example_catalog) 0) = [''Name'', ''City'', ''Latitude'', ''Longitude'']"
  "rows (heap (state_with example_catalog) 0) = example_rows"
  "columns (heap (state_with catalog_without_city) 0) = [''Name'', ''Latitude'', ''Longitude'']"
  "rows (heap (state_with catalog_without_city) 0) = example_rows"
  "columns (heap (state_with catalog_without_latitude) 0) = [''Name'', ''City'', ''Longitude'']"
  "columns (heap (state_with catalog_of_origin) 0) = [''Name'', ''City'', ''Latitude'', ''Longitude'']"
  "rows (heap (state_with catalog_of_origin) 0) = [place ''Here'' ''H'' 0 0]"
  "next_free (state_with d) = 1" "stdout (state_with d) = []"
  by (simp_all add: state_with_def example_catalog_def catalog_without_city_def
      catalog_without_latitude_def catalog_of_origin_def)

lemma example_step2:
  "distance_column on_empty exact 0 0
     (filter (in_box example_box) (rows (heap (state_with example_catalog) 0))) =
   Inr (map (\<lambda>r. haversine_km exact 0 0 (Latitude r) (Longitude r))
          (filter (in_box example_box) (rows (heap (state_with example_catalog) 0))))"
proof (rule distance_column_exact)
  show "filter (in_box example_box) (rows (heap (state_with example_catalog) 0)) \<noteq> []"
    by (simp add: example_columns example_rows_def in_box_def example_box_def place_def)
qed



lemma example_result:
  "fst (filter_places sort_values_stable (Some ValueError) exact (state_with example_catalog) 0 0 0 1300 150) =
     Inr [''B'', ''A'']"
proof -
  have lat: "''Latitude'' \<in> set (columns (heap (state_with example_catalog) 0))"
    and lon: "''Longitude'' \<in> set (columns (heap (state_with example_catalog) 0))"
    by (simp_all add: example_columns)
  show ?thesis
    by (simp add: filter_places_result [OF example_bounding_box lat lon example_step2]
        example_columns example_cities)
qed

subsection \<open>The catalog is left as it was\<close>

lemma filter_places_frame:
  assumes "b < next_free s"
  shows "heap (snd (filter_places sort_values on_empty eps s df lat_x lon_x max_distance_km tolerance)) b =
         heap s b"
proof (cases "''Latitude'' \<in> set (columns (heap s df))")
  case False
  then show ?thesis by (simp add: filter_places_no_latitude)
next
  case lat: True
  show ?thesis
  proof (cases "''Longitude'' \<in> set (columns (heap s df))")
    case False
    then show ?thesis using lat by (simp add: filter_places_no_longitude)
  next
    case lon: True
    let ?box = "bounding_box lat_x lon_x (max_distance_km + tolerance)"
    show ?thesis
    proof (cases "distance_column on_empty eps lat_x lon_x
        (filter (in_box ?box) (rows (heap s df)))")
      case (Inl e)
      show ?thesis
        using assms by (simp add: filter_places_apply_error [OF refl lat lon Inl])
    next
      case (Inr ds)
      show ?thesis
        using assms by (simp add: filter_places_heap [OF refl lat lon Inr])
    qed
  qed
qed

text \<open>
  C9. The catalog is an object that exists before the call, so its address \<open>df\<close> is
  below \<open>next_free\<close>. Whatever filter_places does (return a list, raise KeyError,
  or raise ValueError in the middle of step 2), the catalog frame is the same after
  the call as before it, columns and rows, and so is every other frame that existed
  before the call: the frames filter_places makes and the one it changes in place are
  new ones.
\<close>

theorem filter_places_leaves_catalog:
  assumes "df < next_free s"
  shows "heap (snd (filter_places sort_values on_empty eps s df lat_x lon_x max_distance_km tolerance)) df
           = heap s df
       \<and> (\<forall>b<next_free s.
            heap (snd (filter_places sort_values on_empty eps s df lat_x lon_x max_distance_km tolerance)) b
              = heap s b)"
  using assms by (simp add: filter_places_frame)

text \<open>
  An instance: after the query on the example catalog the catalog has its four columns
  and its rows, while the working copy at address 2 has the distance column.
\<close>

theorem filter_places_leaves_catalog_witness:
  "(0::nat) < next_free (state_with example_catalog)
   \<and> heap (snd (filter_places sort_values_stable (Some ValueError) exact (state_with example_catalog)
                  0 0 0 1300 150)) 0 = example_catalog
   \<and> columns (heap (snd (filter_places sort_values_stable (Some ValueError) exact (state_with example_catalog)
                  0 0 0 1300 150)) 2) =
       [''Name'', ''City'', ''Latitude'', ''Longitude'', ''distance_km'']"
proof -
  have h: "(0::nat) < next_free (state_with example_catalog)"
    by (simp add: state_with_def)
  have lat: "''Latitude'' \<in> set (columns (heap (state_with example_catalog) 0))"
    and lon: "''Longitude'' \<in> set (columns (heap (state_with example_catalog) 0))"
    by (simp_all add: example_columns)
  have c: "columns (heap (snd (filter_places sort_values_stable (Some ValueError) exact
             (state_with example_catalog) 0 0 0 1300 150)) 2) =
       [''Name'', ''City'', ''Latitude'', ''Longitude'', ''distance_km'']"
    by (simp add: filter_places_heap [OF example_bounding_box lat lon example_step2]
        example_columns with_distance_km_def)
  have "heap (snd (filter_places sort_values_stable (Some ValueError) exact (state_with example_catalog)
                  0 0 0 1300 150)) 0 = heap (state_with example_catalog) 0"
    using filter_places_leaves_catalog [OF h, of sort_values_stable "Some ValueError" exact 0 0 1300 150]
    by (rule conjunct1)
  then show ?thesis using h c by (simp add: state_with_def)
qed

subsection \<open>The ranking\<close>



subsection \<open>The distance band\<close>




subsection \<open>Missing columns\<close>




section \<open>Properties of recommend_cities\<close>

lemma trip_logic_defaults:
  "trip_logic_args days (Some spd) None None None None = trip_logic days spd 6 3 2 False"
  by (simp add: trip_logic_args_def)

lemma trip_logic_default_values:
  "fst (trip_logic days spd 6 3 2 False) = 26 / 3 * real_of_int (days * spd)"
  "snd (trip_logic days spd 6 3 2 False) = 13 * days"
  by (simp_all add: trip_logic_def Let_def)

lemma round2_1300: "round2 1300 = 1300"
  by (simp add: round2_def Let_def)

text \<open>
  C10. For every request, recommend_cities does what it would do with the calls
  \<open>trip_logic(trip_days, speed, 6, 3, 2, False)\<close> and
  \<open>filter_places(df, lat, lon, max_distance, 150)\<close> written out: the request has
  no field that reaches sleep, meal, buffer, compromise or tolerance. The budget is
  then 26/3 times days times speed, from 13 usable hours a day.
\<close>

theorem recommend_cities_fixed_defaults:
  "recommend_cities sort_values on_empty eps geocode s df req =
     (case geocode (user_location req) of
        None \<Rightarrow> (Inr LocationNotFound, s)
      | Some (lat, lon) \<Rightarrow>
          (case filter_places sort_values on_empty eps s df lat lon
                  (fst (trip_logic (trip_days req) (speed req) 6 3 2 False)) 150 of
             (Inl e, s') \<Rightarrow> (Inl e, s')
           | (Inr tour_city, s') \<Rightarrow>
               (Inr (Recommended (round2 (fst (trip_logic (trip_days req) (speed req) 6 3 2 False)))
                      (take 5 tour_city)), s')))
   \<and> fst (trip_logic (trip_days req) (speed req) 6 3 2 False) =
       26 / 3 * real_of_int (trip_days req * speed req)
   \<and> snd (trip_logic (trip_days req) (speed req) 6 3 2 False) = 13 * trip_days req"
proof -
  have "recommend_cities sort_values on_empty eps geocode s df req =
     (case geocode (user_location req) of
        None \<Rightarrow> (Inr LocationNotFound, s)
      | Some (lat, lon) \<Rightarrow>
          (case filter_places sort_values on_empty eps s df lat lon
                  (fst (trip_logic (trip_days req) (speed req) 6 3 2 False)) 150 of
             (Inl e, s') \<Rightarrow> (Inl e, s')
           | (Inr tour_city, s') \<Rightarrow>
               (Inr (Recommended (round2 (fst (trip_logic (trip_days req) (speed req) 6 3 2 False)))
                      (take 5 tour_city)), s')))"
    by (simp add: recommend_cities_def get_lat_lon_def trip_logic_defaults filter_places_args_def
        split_def Let_def split: option.splits)
  then show ?thesis by (simp only: trip_logic_default_values simp_thms)
qed

text \<open>
  An instance: three days at speed 50 from the origin of the example give the budget
  1300 and the cities B and A; a place the geocoder does not know gives no cities.
\<close>

theorem recommend_cities_fixed_defaults_witness:
  "fst (recommend_cities sort_values_stable (Some ValueError) exact example_geocode (state_with example_catalog) 0
          \<lparr>user_location = ''Origin'', trip_days = 3, speed = 50\<rparr>) =
     Inr (Recommended 1300 [''B'', ''A''])
   \<and> fst (recommend_cities sort_values_stable (Some ValueError) exact example_geocode (state_with example_catalog) 0
          \<lparr>user_location = ''Nowhere'', trip_days = 3, speed = 50\<rparr>) =
     Inr LocationNotFound"
proof -
  have d: "fst (trip_logic 3 50 6 3 2 False) = 1300"
    by (simp add: trip_logic_def Let_def)
  obtain s' where f:
    "filter_places sort_values_stable (Some ValueError) exact (state_with example_catalog) 0 0 0 1300 150 =
      (Inr [''B'', ''A''], s')"
    using example_result
    by (cases "filter_places sort_values_stable (Some ValueError) exact (state_with example_catalog) 0 0 0 1300 150")
      simp
  show ?thesis
    using recommend_cities_fixed_defaults [of sort_values_stable "Some ValueError" exact example_geocode
        "state_with example_catalog" 0 "\<lparr>user_location = ''Origin'', trip_days = 3, speed = 50\<rparr>"]
      recommend_cities_fixed_defaults [of sort_values_stable "Some ValueError" exact example_geocode
        "state_with example_catalog" 0 "\<lparr>user_location = ''Nowhere'', trip_days = 3, speed = 50\<rparr>"]
    by (simp add: example_geocode_def d f round2_1300)
qed

end
